theory Spec2Isabelle
  imports Main "HOL-Library.Word"
begin

section \<open>The software timer module \<open>sw_timer.c\<close>\<close>

text \<open>
  A shallow embedding of \<open>src/sw_timer.c\<close>. Timer records live in caller-owned
  buffers and are linked through raw pointers, so the model keeps an explicit store:
  an address is a natural number, a pointer is an \<open>addr option\<close> (\<open>None\<close> is
  \<open>NULL\<close>), and \<open>mem\<close> maps every address to the record stored there. Every statement
  of the source is one update of the store, in the source's order, so that aliasing
  between the handles of a call behaves as it does in C.

  Every address holds a record: a handle that is not \<open>NULL\<close> always points to a
  buffer, as the caller of \<open>sw_timer_create\<close> has to provide. The \<open>assert\<close> of
  \<open>sw_timer_create\<close> compares two sizes that are fixed when the module is compiled and
  has no counterpart here.

  What C leaves undefined is a value of the model: dereferencing \<open>NULL\<close> is
  \<open>NullDeref\<close>, calling through a \<open>NULL\<close> function pointer is \<open>NullCall\<close>, a failed
  \<open>assert\<close> is \<open>AssertFail\<close>. The loops of the source walk the chain of \<open>next\<close>
  pointers, which may be cyclic; they are recursive functions in the option monad, where
  \<open>None\<close> is a call that never returns.
\<close>

subsection \<open>Data\<close>

type_synonym u32 = "32 word"
type_synonym addr = nat

text \<open>\<open>struct SW_TIMER\<close>. The callback and its argument are opaque \<open>void *\<close> values.\<close>

record sw_timer_t =
  time :: u32
  period :: u32
  mode :: u32
  callback :: "nat option"
  arg :: "nat option"
  "next" :: "addr option"
  prev :: "addr option"

text \<open>\<open>enum SW_TIMER_MODE\<close>, stored in the record as a \<open>uint32_t\<close>.\<close>

definition SW_TIMER_MODE_SINGLE_SHOT :: u32 where
  "SW_TIMER_MODE_SINGLE_SHOT = 0"

definition SW_TIMER_MODE_REPEATING :: u32 where
  "SW_TIMER_MODE_REPEATING = 1"

datatype sw_timer_status_t =
  SW_TIMER_STATUS_OK
| SW_TIMER_STATUS_ERROR_PHYSICAL_TIMER_CALLBACKS_NOT_REGISTERED
| SW_TIMER_STATUS_ERROR_TIMER_NOT_EXIST

text \<open>
  \<open>struct PRIVATE_MEMBERS\<close>: the head of the pending chain and the two registered
  operations of the physical timer. The physical timer is not part of the module; its
  state is the type parameter \<open>'e\<close>, and the registered operations act on it.
\<close>

record 'e sw_timer_private_members_t =
  head :: "addr option"
  set_physical_timer :: "(u32 \<Rightarrow> 'e \<Rightarrow> 'e) option"
  get_physical_sw_timer_counter :: "('e \<Rightarrow> u32 \<times> 'e) option"

text \<open>The whole state: the module's private members, the timer buffers, the outside.\<close>

record 'e sw_state = "'e sw_timer_private_members_t" +
  mem :: "addr \<Rightarrow> sw_timer_t"
  env :: 'e

datatype fault = NullDeref | NullCall | AssertFail

type_synonym 'a outcome = "(fault + 'a) option"

definition bindO :: "'a outcome \<Rightarrow> ('a \<Rightarrow> 'b outcome) \<Rightarrow> 'b outcome" where
  "bindO x k = (case x of None \<Rightarrow> None | Some (Inl e) \<Rightarrow> Some (Inl e) | Some (Inr v) \<Rightarrow> k v)"

text \<open>C's \<open>a && b\<close> on 32-bit operands: 1 when both are non-zero, else 0.\<close>

definition logical_and :: "u32 \<Rightarrow> u32 \<Rightarrow> u32" where
  "logical_and a b = (if a \<noteq> 0 \<and> b \<noteq> 0 then 1 else 0)"

text \<open>\<open>this->set_physical_timer(v)\<close>: a call through the registered pointer.\<close>

definition call_set_physical_timer :: "u32 \<Rightarrow> 'e sw_state \<Rightarrow> 'e sw_state outcome" where
  "call_set_physical_timer v s =
     (case set_physical_timer s of
        None \<Rightarrow> Some (Inl NullCall)
      | Some f \<Rightarrow> Some (Inr (s\<lparr>env := f v (env s)\<rparr>)))"

text \<open>\<open>this->get_physical_sw_timer_counter()\<close>.\<close>

definition call_get_physical_sw_timer_counter :: "'e sw_state \<Rightarrow> (u32 \<times> 'e sw_state) outcome" where
  "call_get_physical_sw_timer_counter s =
     (case get_physical_sw_timer_counter s of
        None \<Rightarrow> Some (Inl NullCall)
      | Some g \<Rightarrow> Some (Inr (fst (g (env s)), s\<lparr>env := snd (g (env s))\<rparr>)))"

subsection \<open>Registration and creation\<close>

text \<open>The initial value of \<open>private_members\<close> is \<open>{ NULL, NULL, NULL }\<close>.\<close>

definition blank_timer :: sw_timer_t where
  "blank_timer = \<lparr>time = 0, period = 0, mode = 0, callback = None, arg = None,
     next = None, prev = None\<rparr>"

definition initial_state :: "'e \<Rightarrow> 'e sw_state" where
  "initial_state e = \<lparr>head = None, set_physical_timer = None,
     get_physical_sw_timer_counter = None, mem = (\<lambda>_. blank_timer), env = e\<rparr>"

definition sw_timer_register_physical_sw_timer_callbacks ::
  "(u32 \<Rightarrow> 'e \<Rightarrow> 'e) option \<Rightarrow> ('e \<Rightarrow> u32 \<times> 'e) option \<Rightarrow> 'e sw_state \<Rightarrow> 'e sw_state" where
  "sw_timer_register_physical_sw_timer_callbacks f g s =
     s\<lparr>set_physical_timer := f, get_physical_sw_timer_counter := g\<rparr>"

text \<open>
  \<open>sw_timer_create\<close> writes the seven fields into the caller's buffer and returns the
  buffer's address as the handle.
\<close>

definition sw_timer_create ::
  "u32 \<Rightarrow> u32 \<Rightarrow> nat option \<Rightarrow> nat option \<Rightarrow> addr option \<Rightarrow> 'e sw_state
     \<Rightarrow> fault + (addr option \<times> 'e sw_state)" where
  "sw_timer_create period' mode' callback' arg' buffer s =
     (case buffer of
        None \<Rightarrow> Inl NullDeref
      | Some b \<Rightarrow>
          Inr (Some b, s\<lparr>mem := (mem s)(b := \<lparr>time = 0, period = period', mode = mode',
                 callback = callback', arg = arg', next = None, prev = None\<rparr>)\<rparr>))"

subsection \<open>The static helpers\<close>

text \<open>The loop of \<open>sw_timer_update_relative_time\<close>:
  \<open>while (_timer) { _timer->time -= shift_time; _timer = _timer->next; }\<close>\<close>

partial_function (option) rebase_loop ::
  "addr option \<Rightarrow> u32 \<Rightarrow> (addr \<Rightarrow> sw_timer_t) \<Rightarrow> (addr \<Rightarrow> sw_timer_t) option" where
  "rebase_loop timer' shift_time m =
     (case timer' of
        None \<Rightarrow> Some m
      | Some a \<Rightarrow> rebase_loop (next (m a)) shift_time (m(a := (m a)\<lparr>time := time (m a) - shift_time\<rparr>)))"

declare rebase_loop.simps [code]

text \<open>
  \<open>sw_timer_update_relative_time\<close>. The condition is the source's
  \<open>((timer->time + delta) && 0x80000000) != 0\<close>, with the logical operator it is
  written with.
\<close>

definition sw_timer_update_relative_time ::
  "addr option \<Rightarrow> u32 \<Rightarrow> 'e sw_state \<Rightarrow> 'e sw_state outcome" where
  "sw_timer_update_relative_time timer delta s =
     (case timer of
        None \<Rightarrow> Some (Inl NullDeref)
      | Some t \<Rightarrow>
          bindO
            (if logical_and (time (mem s t) + delta) 0x80000000 \<noteq> 0 then
               (case head s of
                  None \<Rightarrow> Some (Inl NullDeref)
                | Some h \<Rightarrow>
                    bindO (call_get_physical_sw_timer_counter s)
                      (\<lambda>(now, s1).
                         (case rebase_loop (head s1) (time (mem s1 h) - now) (mem s1) of
                            None \<Rightarrow> None
                          | Some m \<Rightarrow> Some (Inr (s1\<lparr>mem := m\<rparr>)))))
             else Some (Inr s))
            (\<lambda>s2. Some (Inr (s2\<lparr>mem := (mem s2)(t := (mem s2 t)\<lparr>time := time (mem s2 t) + delta\<rparr>)\<rparr>))))"

text \<open>\<open>sw_timer_insert\<close>: the scan from \<open>timer\<close> for the place of \<open>new_timer\<close>.\<close>

partial_function (option) sw_timer_insert ::
  "addr option \<Rightarrow> addr option \<Rightarrow> (addr \<Rightarrow> sw_timer_t) \<Rightarrow> (fault + (addr \<Rightarrow> sw_timer_t)) option" where
  "sw_timer_insert timer new_timer m =
     (case timer of
        None \<Rightarrow> Some (Inr m)
      | Some a \<Rightarrow>
          (case new_timer of
             None \<Rightarrow> Some (Inl NullDeref)
           | Some b \<Rightarrow>
               if time (m b) < time (m a) then
                 (let m1 = m(b := (m b)\<lparr>next := Some a\<rparr>);
                      m2 = m1(b := (m1 b)\<lparr>prev := prev (m1 a)\<rparr>)
                  in case prev (m2 a) of
                       None \<Rightarrow> Some (Inl NullDeref)
                     | Some p \<Rightarrow>
                         (let m3 = m2(p := (m2 p)\<lparr>next := Some b\<rparr>)
                          in Some (Inr (m3(a := (m3 a)\<lparr>prev := Some b\<rparr>)))))
               else if next (m a) = None then
                 (let m1 = m(a := (m a)\<lparr>next := Some b\<rparr>);
                      m2 = m1(b := (m1 b)\<lparr>next := None\<rparr>)
                  in Some (Inr (m2(b := (m2 b)\<lparr>prev := Some a\<rparr>))))
               else sw_timer_insert (next (m a)) new_timer m))"

declare sw_timer_insert.simps [code]

subsection \<open>The control operations\<close>

text \<open>
  \<open>sw_timer_start\<close>. On an empty chain the handle becomes the head and its time is set
  before the arm pointer is tested; on a non-empty chain both pointers are tested first.
\<close>

definition sw_timer_start ::
  "addr option \<Rightarrow> 'e sw_state \<Rightarrow> (sw_timer_status_t \<times> 'e sw_state) outcome" where
  "sw_timer_start timer s =
     (case timer of
        None \<Rightarrow> Some (Inr (SW_TIMER_STATUS_ERROR_TIMER_NOT_EXIST, s))
      | Some t \<Rightarrow>
          (case head s of
             None \<Rightarrow>
               (let s1 = s\<lparr>head := Some t\<rparr>;
                    s2 = s1\<lparr>mem := (mem s1)(t := (mem s1 t)\<lparr>time := period (mem s1 t)\<rparr>)\<rparr>
                in case set_physical_timer s2 of
                     Some f \<Rightarrow>
                       Some (Inr (SW_TIMER_STATUS_OK, s2\<lparr>env := f (period (mem s2 t)) (env s2)\<rparr>))
                   | None \<Rightarrow>
                       Some (Inr (SW_TIMER_STATUS_ERROR_PHYSICAL_TIMER_CALLBACKS_NOT_REGISTERED, s2)))
           | Some h \<Rightarrow>
               if set_physical_timer s \<noteq> None \<and> get_physical_sw_timer_counter s \<noteq> None then
                 bindO (call_get_physical_sw_timer_counter s)
                   (\<lambda>(now, s1).
                      bindO (sw_timer_update_relative_time (Some t)
                               (time (mem s1 h) - now + period (mem s1 t)) s1)
                        (\<lambda>s2.
                           if time (mem s2 t) < time (mem s2 h) then
                             bindO (call_get_physical_sw_timer_counter s2)
                               (\<lambda>(now', s3).
                                  bindO (call_set_physical_timer
                                           (time (mem s3 t) - (time (mem s3 h) - now')) s3)
                                    (\<lambda>s4.
                                       let s5 = s4\<lparr>mem := (mem s4)(t := (mem s4 t)\<lparr>next := Some h\<rparr>)\<rparr>;
                                           s6 = s5\<lparr>mem := (mem s5)(h := (mem s5 h)\<lparr>prev := Some t\<rparr>)\<rparr>
                                       in Some (Inr (SW_TIMER_STATUS_OK, s6\<lparr>head := Some t\<rparr>))))
                           else
                             (case sw_timer_insert (next (mem s2 h)) (Some t) (mem s2) of
                                None \<Rightarrow> None
                              | Some (Inl e) \<Rightarrow> Some (Inl e)
                              | Some (Inr m) \<Rightarrow> Some (Inr (SW_TIMER_STATUS_OK, s2\<lparr>mem := m\<rparr>)))))
               else Some (Inr (SW_TIMER_STATUS_ERROR_PHYSICAL_TIMER_CALLBACKS_NOT_REGISTERED, s))))"

text \<open>
  \<open>sw_timer_stop\<close> has no loop. Removing the head calls the physical timer without
  testing the pointers; removing any other record goes through its \<open>prev\<close> link.
\<close>

definition sw_timer_stop ::
  "addr option \<Rightarrow> 'e sw_state \<Rightarrow> (sw_timer_status_t \<times> 'e sw_state) outcome" where
  "sw_timer_stop timer s =
     (case timer of
        None \<Rightarrow> Some (Inr (SW_TIMER_STATUS_ERROR_TIMER_NOT_EXIST, s))
      | Some t \<Rightarrow>
          (case head s of
             None \<Rightarrow> Some (Inr (SW_TIMER_STATUS_OK, s))
           | Some h \<Rightarrow>
               if h = t then
                 (case next (mem s h) of
                    Some n \<Rightarrow>
                      bindO (call_get_physical_sw_timer_counter s)
                        (\<lambda>(now, s1).
                           bindO (call_set_physical_timer
                                    (time (mem s1 n) - (time (mem s1 h) - now)) s1)
                             (\<lambda>s2.
                                let s3 = s2\<lparr>head := Some n\<rparr>;
                                    s4 = s3\<lparr>mem := (mem s3)(n := (mem s3 n)\<lparr>prev := None\<rparr>)\<rparr>;
                                    s5 = s4\<lparr>mem := (mem s4)(t := (mem s4 t)\<lparr>time := 0\<rparr>)\<rparr>;
                                    s6 = s5\<lparr>mem := (mem s5)(t := (mem s5 t)\<lparr>next := None\<rparr>)\<rparr>
                                in Some (Inr (SW_TIMER_STATUS_OK, s6))))
                  | None \<Rightarrow>
                      (let s1 = s\<lparr>mem := (mem s)(h := (mem s h)\<lparr>time := 0\<rparr>)\<rparr>;
                           s2 = s1\<lparr>head := None\<rparr>
                       in bindO (call_set_physical_timer 0 s2)
                            (\<lambda>s3. Some (Inr (SW_TIMER_STATUS_OK, s3)))))
               else
                 (let m1 = (mem s)(t := (mem s t)\<lparr>time := 0\<rparr>)
                  in case next (m1 t) of
                       Some n \<Rightarrow>
                         (let m2 = m1(n := (m1 n)\<lparr>prev := prev (m1 t)\<rparr>)
                          in case prev (m2 t) of
                               None \<Rightarrow> Some (Inl NullDeref)
                             | Some p \<Rightarrow>
                                 (let m3 = m2(p := (m2 p)\<lparr>next := next (m2 t)\<rparr>);
                                      m4 = m3(t := (m3 t)\<lparr>prev := None\<rparr>);
                                      m5 = m4(t := (m4 t)\<lparr>next := None\<rparr>)
                                  in Some (Inr (SW_TIMER_STATUS_OK, s\<lparr>mem := m5\<rparr>))))
                     | None \<Rightarrow>
                         (case prev (m1 t) of
                            None \<Rightarrow> Some (Inl NullDeref)
                          | Some p \<Rightarrow>
                              (let m2 = m1(p := (m1 p)\<lparr>next := None\<rparr>);
                                   m3 = m2(t := (m2 t)\<lparr>prev := None\<rparr>)
                               in Some (Inr (SW_TIMER_STATUS_OK, s\<lparr>mem := m3\<rparr>)))))))"

text \<open>The four assignments of \<open>sw_timer_update\<close>.\<close>

definition replace_fields ::
  "u32 \<Rightarrow> u32 \<Rightarrow> nat option \<Rightarrow> nat option \<Rightarrow> addr \<Rightarrow> 'e sw_state \<Rightarrow> 'e sw_state" where
  "replace_fields period' mode' callback' arg' t s =
     (let s1 = s\<lparr>mem := (mem s)(t := (mem s t)\<lparr>period := period'\<rparr>)\<rparr>;
          s2 = s1\<lparr>mem := (mem s1)(t := (mem s1 t)\<lparr>mode := mode'\<rparr>)\<rparr>;
          s3 = s2\<lparr>mem := (mem s2)(t := (mem s2 t)\<lparr>callback := callback'\<rparr>)\<rparr>
      in s3\<lparr>mem := (mem s3)(t := (mem s3 t)\<lparr>arg := arg'\<rparr>)\<rparr>)"

text \<open>
  \<open>sw_timer_update\<close>. The statuses of the inner \<open>sw_timer_stop\<close> and
  \<open>sw_timer_start\<close> are discarded by the source; the status returned is \<open>OK\<close>.
\<close>

definition sw_timer_update ::
  "addr option \<Rightarrow> u32 \<Rightarrow> u32 \<Rightarrow> nat option \<Rightarrow> nat option \<Rightarrow> 'e sw_state
     \<Rightarrow> (sw_timer_status_t \<times> 'e sw_state) outcome" where
  "sw_timer_update timer period' mode' callback' arg' s =
     (case timer of
        None \<Rightarrow> Some (Inr (SW_TIMER_STATUS_ERROR_TIMER_NOT_EXIST, s))
      | Some t \<Rightarrow>
          if time (mem s t) = 0 then
            Some (Inr (SW_TIMER_STATUS_OK, replace_fields period' mode' callback' arg' t s))
          else
            bindO (sw_timer_stop timer s)
              (\<lambda>(st1, s1).
                 bindO (sw_timer_start timer (replace_fields period' mode' callback' arg' t s1))
                   (\<lambda>(st2, s2). Some (Inr (SW_TIMER_STATUS_OK, s2)))))"

subsection \<open>The interrupt handler\<close>

text \<open>
  A callback is application code behind a \<open>void *\<close>; the handler takes its meaning as
  the parameter \<open>call\<close>, a function of the callback, its argument and the whole state
  (a callback may call the control operations).

  \<open>expire_head\<close> is one pass through the body of the handler's loop, for the head
  \<open>h\<close> and the deadline \<open>time0\<close> captured at entry.
\<close>

definition expire_head ::
  "(nat \<Rightarrow> nat option \<Rightarrow> 'e sw_state \<Rightarrow> 'e sw_state outcome) \<Rightarrow> u32 \<Rightarrow> addr \<Rightarrow> 'e sw_state
     \<Rightarrow> 'e sw_state outcome" where
  "expire_head call time0 h s =
     (let callback0 = callback (mem s h);
          arg0 = arg (mem s h)
      in bindO
           (if mode (mem s h) = SW_TIMER_MODE_SINGLE_SHOT then
              (let s1 = s\<lparr>mem := (mem s)(h := (mem s h)\<lparr>time := 0\<rparr>)\<rparr>
               in case next (mem s1 h) of
                    Some n \<Rightarrow>
                      (let s2 = s1\<lparr>mem := (mem s1)(h := (mem s1 h)\<lparr>next := None\<rparr>)\<rparr>;
                           s3 = s2\<lparr>head := Some n\<rparr>
                       in Some (Inr (s3\<lparr>mem := (mem s3)(n := (mem s3 n)\<lparr>prev := None\<rparr>)\<rparr>)))
                  | None \<Rightarrow> Some (Inr (s1\<lparr>head := None\<rparr>)))
            else if mode (mem s h) = SW_TIMER_MODE_REPEATING then
              bindO (sw_timer_update_relative_time (Some h) (period (mem s h)) s)
                (\<lambda>s1.
                   case next (mem s1 h) of
                     Some n \<Rightarrow>
                       if time (mem s1 h) > time (mem s1 n) then
                         (let s2 = s1\<lparr>head := Some n\<rparr>
                          in case sw_timer_insert (Some n) (prev (mem s2 n)) (mem s2) of
                               None \<Rightarrow> None
                             | Some (Inl e) \<Rightarrow> Some (Inl e)
                             | Some (Inr m) \<Rightarrow>
                                 Some (Inr (s2\<lparr>mem := m(n := (m n)\<lparr>prev := None\<rparr>)\<rparr>)))
                       else Some (Inr s1)
                   | None \<Rightarrow> Some (Inr s1))
            else Some (Inl AssertFail))
           (\<lambda>s1.
              bindO
                (case head s1 of
                   Some h' \<Rightarrow>
                     if time (mem s1 h') \<noteq> time0
                     then call_set_physical_timer (time (mem s1 h') - time0) s1
                     else Some (Inr s1)
                 | None \<Rightarrow> call_set_physical_timer 0 s1)
                (\<lambda>s2. case callback0 of None \<Rightarrow> Some (Inr s2) | Some c \<Rightarrow> call c arg0 s2)))"

text \<open>\<open>while (this->head && (this->head->time == time)) { ... }\<close>\<close>

partial_function (option) expiry_loop ::
  "(nat \<Rightarrow> nat option \<Rightarrow> 'e sw_state \<Rightarrow> 'e sw_state outcome) \<Rightarrow> u32 \<Rightarrow> 'e sw_state
     \<Rightarrow> (fault + 'e sw_state) option" where
  "expiry_loop call time0 s =
     (case head s of
        None \<Rightarrow> Some (Inr s)
      | Some h \<Rightarrow>
          if time (mem s h) = time0 then
            (case expire_head call time0 h s of
               None \<Rightarrow> None
             | Some (Inl e) \<Rightarrow> Some (Inl e)
             | Some (Inr s') \<Rightarrow> expiry_loop call time0 s')
          else Some (Inr s))"

declare expiry_loop.simps [code]

text \<open>
  \<open>sw_timer_interrupt_handler\<close>: \<open>uint32_t time = this->head->time;\<close> comes first,
  before any test of \<open>this->head\<close>.
\<close>

definition sw_timer_interrupt_handler ::
  "(nat \<Rightarrow> nat option \<Rightarrow> 'e sw_state \<Rightarrow> 'e sw_state outcome) \<Rightarrow> 'e sw_state \<Rightarrow> 'e sw_state outcome" where
  "sw_timer_interrupt_handler call s =
     (case head s of
        None \<Rightarrow> Some (Inl NullDeref)
      | Some h \<Rightarrow> expiry_loop call (time (mem s h)) s)"

subsection \<open>Reading the pending chain\<close>

text \<open>
  \<open>is_chain m p xs\<close>: following \<open>next\<close> from the pointer \<open>p\<close> visits exactly the
  addresses \<open>xs\<close>, in this order, and then reaches \<open>NULL\<close>.
\<close>

fun is_chain :: "(addr \<Rightarrow> sw_timer_t) \<Rightarrow> addr option \<Rightarrow> addr list \<Rightarrow> bool" where
  "is_chain m p [] = (p = None)"
| "is_chain m p (a # as) = (p = Some a \<and> is_chain m (next (m a)) as)"

text \<open>The relative times along a chain.\<close>

definition chain_times :: "(addr \<Rightarrow> sw_timer_t) \<Rightarrow> addr list \<Rightarrow> u32 list" where
  "chain_times m xs = map (\<lambda>a. time (m a)) xs"

subsection \<open>A physical timer\<close>

text \<open>
  The physical timer is an external collaborator, known to the module only through the
  two registered operations. For the scenarios it is a down-counter, as the
  specification describes the adapter: \<open>arm\<close> loads the counter with the number of
  ticks until the interrupt, \<open>now\<close> reads the ticks that remain, and the interrupt is
  due when the counter has reached 0. The record also logs the values the timer was
  armed with and the callbacks that ran.
\<close>

record hw =
  counter :: u32
  armed :: "u32 list"
  fired :: "(nat \<times> nat option) list"

definition hw_idle :: hw where
  "hw_idle = \<lparr>counter = 0, armed = [], fired = []\<rparr>"

definition hw_arm :: "u32 \<Rightarrow> hw \<Rightarrow> hw" where
  "hw_arm v e = e\<lparr>counter := v, armed := armed e @ [v]\<rparr>"

definition hw_now :: "hw \<Rightarrow> u32 \<times> hw" where
  "hw_now e = (counter e, e)"

text \<open>\<open>k\<close> ticks pass.\<close>

definition elapse :: "u32 \<Rightarrow> hw sw_state \<Rightarrow> hw sw_state" where
  "elapse k s = s\<lparr>env := (env s)\<lparr>counter := counter (env s) - k\<rparr>\<rparr>"

text \<open>A callback that only records that it ran.\<close>

definition log_call :: "nat \<Rightarrow> nat option \<Rightarrow> hw sw_state \<Rightarrow> hw sw_state outcome" where
  "log_call c a s = Some (Inr (s\<lparr>env := (env s)\<lparr>fired := fired (env s) @ [(c, a)]\<rparr>\<rparr>))"

text \<open>The empty registry with this timer registered.\<close>

definition registered :: "hw sw_state" where
  "registered =
     sw_timer_register_physical_sw_timer_callbacks (Some hw_arm) (Some hw_now)
       (initial_state hw_idle)"

subsection \<open>Sequences of calls\<close>

text \<open>
  What a client and the hardware can do to the module: the five entry points and the
  interrupt, and time passing on the physical timer.
\<close>

datatype api_call =
  Create u32 u32 "nat option" "nat option" "addr option"
| Update "addr option" u32 u32 "nat option" "nat option"
| Start "addr option"
| Stop "addr option"
| Interrupt
| Ticks u32

definition exec :: "api_call \<Rightarrow> hw sw_state \<Rightarrow> hw sw_state outcome" where
  "exec c s =
     (case c of
        Create p m cb a b \<Rightarrow>
          (case sw_timer_create p m cb a b s of Inl e \<Rightarrow> Some (Inl e) | Inr (h, s') \<Rightarrow> Some (Inr s'))
      | Update h p m cb a \<Rightarrow> bindO (sw_timer_update h p m cb a s) (\<lambda>(st, s'). Some (Inr s'))
      | Start h \<Rightarrow> bindO (sw_timer_start h s) (\<lambda>(st, s'). Some (Inr s'))
      | Stop h \<Rightarrow> bindO (sw_timer_stop h s) (\<lambda>(st, s'). Some (Inr s'))
      | Interrupt \<Rightarrow> sw_timer_interrupt_handler log_call s
      | Ticks k \<Rightarrow> Some (Inr (elapse k s)))"

fun exec_all :: "api_call list \<Rightarrow> hw sw_state \<Rightarrow> hw sw_state outcome" where
  "exec_all [] s = Some (Inr s)"
| "exec_all (c # cs) s = bindO (exec c s) (exec_all cs)"

text \<open>\<open>returned r P\<close>: the call returned, without a fault, a value that satisfies \<open>P\<close>.\<close>

definition returned :: "'a outcome \<Rightarrow> ('a \<Rightarrow> bool) \<Rightarrow> bool" where
  "returned r P = (case r of Some (Inr v) \<Rightarrow> P v | Some (Inl e) \<Rightarrow> False | None \<Rightarrow> False)"

subsection \<open>What the handler is expected to do\<close>

text \<open>
  The effect on the outside of expiring the timers \<open>xs\<close>, in this order: each
  callback runs once, with its argument, and the physical timer is re-armed once, after
  the last timer has left the head and before its callback runs.
\<close>

definition fire_callback :: "(nat \<Rightarrow> nat option \<Rightarrow> 'e \<Rightarrow> 'e) \<Rightarrow> sw_timer_t \<Rightarrow> 'e \<Rightarrow> 'e" where
  "fire_callback run r e = (case callback r of None \<Rightarrow> e | Some c \<Rightarrow> run c (arg r) e)"

fun fire ::
  "(nat \<Rightarrow> nat option \<Rightarrow> 'e \<Rightarrow> 'e) \<Rightarrow> ('e \<Rightarrow> 'e) \<Rightarrow> (addr \<Rightarrow> sw_timer_t) \<Rightarrow> addr list \<Rightarrow> 'e \<Rightarrow> 'e" where
  "fire run rearm m [] e = e"
| "fire run rearm m [x] e = fire_callback run (m x) (rearm e)"
| "fire run rearm m (x # x' # xs) e = fire run rearm m (x' # xs) (fire_callback run (m x) e)"

text \<open>
  The value the timer is re-armed with when the chain \<open>ys\<close> remains after the deadline
  \<open>t\<close>: the distance to the new head, or 0 (disarm) when nothing remains.
\<close>

definition residual :: "(addr \<Rightarrow> sw_timer_t) \<Rightarrow> addr list \<Rightarrow> u32 \<Rightarrow> u32" where
  "residual m ys t = (case ys of [] \<Rightarrow> 0 | y # _ \<Rightarrow> time (m y) - t)"

subsection \<open>The specification's update of a pending timer\<close>

text \<open>
  The specification defines \<open>Update\<close> of a pending timer as Stop, followed by the
  replacement of the four fields, followed by Start. This is that composition, written
  with the module's own \<open>sw_timer_stop\<close> and \<open>sw_timer_start\<close>; the two statuses are
  dropped.
\<close>

definition stop_replace_start ::
  "addr \<Rightarrow> u32 \<Rightarrow> u32 \<Rightarrow> nat option \<Rightarrow> nat option \<Rightarrow> 'e sw_state \<Rightarrow> 'e sw_state outcome" where
  "stop_replace_start t p m c a s =
     bindO (sw_timer_stop (Some t) s)
       (\<lambda>(st1, s1).
          bindO (sw_timer_start (Some t)
                   (s1\<lparr>mem := (mem s1)(t := (mem s1 t)\<lparr>period := p, mode := m,
                          callback := c, arg := a\<rparr>)\<rparr>))
            (\<lambda>(st2, s2). Some (Inr s2)))"

subsection \<open>Some registry states\<close>

text \<open>
  A registry whose only pending timer is Repeating with period 0, as \<open>sw_timer_start\<close>
  leaves it on an empty chain: the time of the head is its period, 0.
\<close>

definition spinning :: "hw sw_state" where
  "spinning = registered\<lparr>head := Some 1,
     mem := (mem registered)(1 := \<lparr>time = 0, period = 0, mode = SW_TIMER_MODE_REPEATING,
       callback = None, arg = None, next = None, prev = None\<rparr>),
     env := hw_arm 0 (env registered)\<rparr>"

text \<open>
  One Repeating timer with period 30, at its deadline: the counter has reached 0. The
  parameter is the log of the callbacks that have run.
\<close>

definition due_repeating :: "(nat \<times> nat option) list \<Rightarrow> hw sw_state" where
  "due_repeating l = registered\<lparr>head := Some 1,
     mem := (mem registered)(1 := \<lparr>time = 30, period = 30, mode = SW_TIMER_MODE_REPEATING,
       callback = Some 10, arg = None, next = None, prev = None\<rparr>),
     env := \<lparr>counter = 0, armed = [30], fired = l\<rparr>\<rparr>"

text \<open>Timer 1 is the only pending timer; timer 2 has been created and not started.\<close>

definition sole_pending :: "hw sw_state" where
  "sole_pending = registered\<lparr>head := Some 1,
     mem := (mem registered)
       (1 := \<lparr>time = 100, period = 100, mode = SW_TIMER_MODE_SINGLE_SHOT,
              callback = Some 10, arg = None, next = None, prev = None\<rparr>,
        2 := \<lparr>time = 0, period = 40, mode = SW_TIMER_MODE_SINGLE_SHOT,
              callback = Some 20, arg = None, next = None, prev = None\<rparr>),
     env := \<lparr>counter = 100, armed = [100], fired = []\<rparr>\<rparr>"

text \<open>
  Three SingleShot timers at the deadline of the first two: the chain is 2, 3, 1 with
  the times 30, 30, 50, and the counter has reached 0.
\<close>

definition tied :: "hw sw_state" where
  "tied = registered\<lparr>head := Some 2,
     mem := (mem registered)
       (1 := \<lparr>time = 50, period = 50, mode = SW_TIMER_MODE_SINGLE_SHOT,
              callback = Some 10, arg = None, next = None, prev = Some 3\<rparr>,
        2 := \<lparr>time = 30, period = 30, mode = SW_TIMER_MODE_SINGLE_SHOT,
              callback = Some 20, arg = None, next = Some 3, prev = None\<rparr>,
        3 := \<lparr>time = 30, period = 30, mode = SW_TIMER_MODE_SINGLE_SHOT,
              callback = Some 30, arg = None, next = Some 1, prev = Some 2\<rparr>),
     env := \<lparr>counter = 0, armed = [50, 30], fired = []\<rparr>\<rparr>"

section \<open>Properties\<close>

lemmas model_defs = exec_def bindO_def returned_def sw_timer_create_def sw_timer_start_def
  sw_timer_stop_def sw_timer_update_def replace_fields_def sw_timer_interrupt_handler_def
  expire_head_def sw_timer_update_relative_time_def call_set_physical_timer_def
  call_get_physical_sw_timer_counter_def logical_and_def registered_def initial_state_def
  sw_timer_register_physical_sw_timer_callbacks_def hw_arm_def hw_now_def hw_idle_def
  elapse_def log_call_def blank_timer_def SW_TIMER_MODE_SINGLE_SHOT_def
  SW_TIMER_MODE_REPEATING_def chain_times_def

lemmas loop_simps = rebase_loop.simps sw_timer_insert.simps expiry_loop.simps

subsection \<open>The example states are reachable\<close>

lemma spinning_reached:
  "exec_all [Create 0 SW_TIMER_MODE_REPEATING None None (Some 1), Start (Some 1)] registered
     = Some (Inr spinning)"
  by (simp add: model_defs spinning_def)

lemma due_repeating_reached:
  "exec_all [Create 30 SW_TIMER_MODE_REPEATING (Some 10) None (Some 1), Start (Some 1), Ticks 30]
     registered = Some (Inr (due_repeating []))"
  by (simp add: model_defs due_repeating_def)

lemma sole_pending_reached:
  "exec_all [Create 100 SW_TIMER_MODE_SINGLE_SHOT (Some 10) None (Some 1),
             Create 40 SW_TIMER_MODE_SINGLE_SHOT (Some 20) None (Some 2),
             Start (Some 1)] registered = Some (Inr sole_pending)"
  by (simp add: model_defs sole_pending_def fun_eq_iff)

lemma tied_reached:
  "exec_all [Create 50 SW_TIMER_MODE_SINGLE_SHOT (Some 10) None (Some 1),
             Create 30 SW_TIMER_MODE_SINGLE_SHOT (Some 20) None (Some 2),
             Create 30 SW_TIMER_MODE_SINGLE_SHOT (Some 30) None (Some 3),
             Start (Some 1), Start (Some 2), Start (Some 3), Ticks 30] registered
     = Some (Inr tied)"
  by (simp add: model_defs loop_simps tied_def fun_eq_iff)

subsection \<open>Starting a timer\<close>

text \<open>
  Claim C1: with both adapter operations registered, a \<open>sw_timer_start\<close> that returns
  \<open>OK\<close> leaves the started record in the pending chain, in particular when the chain
  held exactly one timer and the new record's time is not below the head's.

  The code does not: on a chain of one timer the scan for the insertion place starts at
  \<open>this->head->next\<close>, which is \<open>NULL\<close>, and the loop of \<open>sw_timer_insert\<close> does not
  run. Timer 1 (period 30) is started, then timer 2 (period 50) while the counter still
  reads 30. The second call returns \<open>OK\<close>, timer 2 has the time 50, the chain from the
  head is still timer 1 alone, and timer 2 is linked to nothing.
\<close>

theorem C1_start_drops_timer:
  "returned
     (exec_all [Create 30 SW_TIMER_MODE_SINGLE_SHOT (Some 10) None (Some 1),
                Create 50 SW_TIMER_MODE_SINGLE_SHOT (Some 20) None (Some 2),
                Start (Some 1)] registered)
     (\<lambda>s. set_physical_timer s \<noteq> None \<and> get_physical_sw_timer_counter s \<noteq> None \<and>
          is_chain (mem s) (head s) [1] \<and>
          returned (sw_timer_start (Some 2) s)
            (\<lambda>(status, s'). status = SW_TIMER_STATUS_OK \<and> time (mem s' 2) = 50 \<and>
               time (mem s' 1) = 30 \<and> is_chain (mem s') (head s') [1] \<and>
               next (mem s' 2) = None \<and> prev (mem s' 2) = None))"
  by (simp add: model_defs loop_simps)

text \<open>
  Claim C3: whenever \<open>sw_timer_start\<close> returns a status other than \<open>OK\<close>, the head, the
  chain and every record are as before the call, in particular on an empty chain with
  the arm operation not registered.

  On the empty chain the code makes the handle the head and sets its time before it
  tests \<open>set_physical_timer\<close>: the call returns
  \<open>ERROR_PHYSICAL_TIMER_CALLBACKS_NOT_REGISTERED\<close> with the head set to timer 1 and its
  time changed from 0 to 100.
\<close>

theorem C3_failed_start_mutates:
  "returned
     (exec_all [Create 100 SW_TIMER_MODE_SINGLE_SHOT (Some 10) None (Some 1)]
        (initial_state hw_idle))
     (\<lambda>s. head s = None \<and> time (mem s 1) = 0 \<and> set_physical_timer s = None \<and>
          returned (sw_timer_start (Some 1) s)
            (\<lambda>(status, s').
               status = SW_TIMER_STATUS_ERROR_PHYSICAL_TIMER_CALLBACKS_NOT_REGISTERED \<and>
               head s' = Some 1 \<and> time (mem s' 1) = 100))"
  by (simp add: model_defs loop_simps)

text \<open>In general, on the empty chain with no arm operation registered:\<close>

lemma start_unregistered_empty_mutates:
  assumes "head s = None" and "set_physical_timer s = None"
  shows "sw_timer_start (Some t) s =
    Some (Inr (SW_TIMER_STATUS_ERROR_PHYSICAL_TIMER_CALLBACKS_NOT_REGISTERED,
      s\<lparr>head := Some t, mem := (mem s)(t := (mem s t)\<lparr>time := period (mem s t)\<rparr>)\<rparr>))"
  using assms by (simp add: sw_timer_start_def)

text \<open>The other two failures of \<open>sw_timer_start\<close> do leave the state as it was.\<close>

lemma start_null_handle_unchanged:
  "sw_timer_start None s = Some (Inr (SW_TIMER_STATUS_ERROR_TIMER_NOT_EXIST, s))"
  by (simp add: sw_timer_start_def)

lemma start_unregistered_nonempty_unchanged:
  assumes "head s = Some h"
    and "set_physical_timer s = None \<or> get_physical_sw_timer_counter s = None"
  shows "sw_timer_start (Some t) s =
    Some (Inr (SW_TIMER_STATUS_ERROR_PHYSICAL_TIMER_CALLBACKS_NOT_REGISTERED, s))"
  using assms by (auto simp add: sw_timer_start_def)

subsection \<open>The rebase of relative times\<close>

text \<open>The condition of \<open>sw_timer_update_relative_time\<close> holds for every non-zero sum.\<close>

lemma rebase_condition:
  "(logical_and (x + delta) 0x80000000 \<noteq> 0) = (x + delta \<noteq> 0)"
  by (simp add: logical_and_def)

text \<open>
  Claim C2: \<open>sw_timer_update_relative_time\<close> shifts the whole chain exactly when the sum
  of the timer's time and \<open>delta\<close> reaches \<open>0x80000000\<close>; when the sum stays below, no
  record is shifted and only the target's time grows by \<open>delta\<close>.

  The code shifts the chain whenever the sum is not 0. Timer 1 is pending with time 50
  and 30 ticks have passed (the counter reads 20); timer 2 is stopped, time 0. Adding
  35 to timer 2 gives 35, far below \<open>0x80000000\<close>, and the time of timer 1 is shifted
  from 50 to 20.
\<close>

theorem C2_rebase_below_high_bit:
  "returned
     (exec_all [Create 50 SW_TIMER_MODE_SINGLE_SHOT (Some 10) None (Some 1),
                Create 5 SW_TIMER_MODE_SINGLE_SHOT (Some 20) None (Some 2),
                Start (Some 1), Ticks 30] registered)
     (\<lambda>s. is_chain (mem s) (head s) [1] \<and> time (mem s 1) = 50 \<and> time (mem s 2) = 0 \<and>
          time (mem s 2) + 35 < 0x80000000 \<and>
          returned (sw_timer_update_relative_time (Some 2) 35 s)
            (\<lambda>s'. time (mem s' 1) = 20 \<and> time (mem s' 2) = 35))"
  by (simp add: model_defs loop_simps)

subsection \<open>The order of the chain\<close>

text \<open>
  Claim C6: two Repeating timers with periods 50 and 30 are started on an empty registry,
  the counter reporting the ticks that remain. The chain is then [30, 50] and the timer
  is armed for 30; after the interrupt at the 30-tick deadline the chain is [50, 60] and
  the timer is armed for 20.

  The first half holds. At the deadline the counter reads 0, the sum 30 + 30 is not 0,
  so the chain is shifted by 30 - 0: timer 1 goes to 20, timer 2 to 0 and then to 30.
  The chain after the interrupt is [20, 30], and the timer is armed with 20 - 30, which
  wraps to 4294967286.
\<close>

theorem C6_scenario2:
  "returned
     (exec_all [Create 50 SW_TIMER_MODE_REPEATING (Some 10) None (Some 1),
                Create 30 SW_TIMER_MODE_REPEATING (Some 20) None (Some 2),
                Start (Some 1), Start (Some 2)] registered)
     (\<lambda>s. is_chain (mem s) (head s) [2, 1] \<and> chain_times (mem s) [2, 1] = [30, 50] \<and>
          armed (env s) = [50, 30] \<and> counter (env s) = 30 \<and>
          returned (exec_all [Ticks 30, Interrupt] s)
            (\<lambda>s'. is_chain (mem s') (head s') [1, 2] \<and>
               chain_times (mem s') [1, 2] = [20, 30] \<and>
               armed (env s') = [50, 30, 4294967286] \<and> fired (env s') = [(20, None)]))"
  by (simp add: model_defs loop_simps)

text \<open>
  The shift is by the head's time minus the counter. Were the handler entered with the
  counter still reading 30 (a counter that reloads itself), the shift would be 0 and
  the scenario would end as claim C6 describes it.
\<close>

lemma scenario2_counter_reloaded:
  "returned
     (exec_all [Create 50 SW_TIMER_MODE_REPEATING (Some 10) None (Some 1),
                Create 30 SW_TIMER_MODE_REPEATING (Some 20) None (Some 2),
                Start (Some 1), Start (Some 2), Interrupt] registered)
     (\<lambda>s'. is_chain (mem s') (head s') [1, 2] \<and>
          chain_times (mem s') [1, 2] = [50, 60] \<and>
          armed (env s') = [50, 30, 20] \<and> fired (env s') = [(20, None)])"
  by (simp add: model_defs loop_simps)

text \<open>
  Claim C5: after any sequence of start, stop, update and interrupt calls from the empty
  registry, the relative times along the chain are non-decreasing.

  After the interrupt of the scenario above the timer is armed with 4294967286 although
  the head's time is 20. A third timer (period 5) started then shifts the chain by
  20 - 4294967286 = 30: timer 1 wraps to 4294967286, timer 2 goes to 0, and the new
  timer, with time 35, becomes the head. The chain reads [35, 4294967286, 0].
\<close>

theorem C5_unsorted_chain:
  "returned
     (exec_all [Create 50 SW_TIMER_MODE_REPEATING (Some 10) None (Some 1),
                Create 30 SW_TIMER_MODE_REPEATING (Some 20) None (Some 2),
                Start (Some 1), Start (Some 2), Ticks 30, Interrupt,
                Create 5 SW_TIMER_MODE_SINGLE_SHOT (Some 30) None (Some 3),
                Start (Some 3)] registered)
     (\<lambda>s. is_chain (mem s) (head s) [3, 1, 2] \<and>
          chain_times (mem s) [3, 1, 2] = [35, 4294967286, 0] \<and>
          \<not> sorted (chain_times (mem s) [3, 1, 2]))"
  by (simp add: model_defs loop_simps)

subsection \<open>Stopping a timer\<close>

text \<open>
  Claim C7: \<open>sw_timer_stop\<close> on a created record that is not pending (time 0, both links
  cleared), while the chain is not empty and the record is not the head, is a no-op that
  returns \<open>OK\<close> and dereferences no null link.

  The code takes the branch for a record that is not the head, finds \<open>timer->next\<close>
  null and writes through \<open>timer->prev\<close>, which is null as well.
\<close>

theorem C7_stop_of_stopped_timer:
  "returned
     (exec_all [Create 30 SW_TIMER_MODE_SINGLE_SHOT (Some 10) None (Some 1),
                Create 50 SW_TIMER_MODE_SINGLE_SHOT (Some 20) None (Some 2),
                Start (Some 1)] registered)
     (\<lambda>s. head s = Some 1 \<and> time (mem s 2) = 0 \<and> next (mem s 2) = None \<and>
          prev (mem s 2) = None \<and> sw_timer_stop (Some 2) s = Some (Inl NullDeref))"
  by (simp add: model_defs loop_simps)

text \<open>In general, for a record with both links cleared that is not the head:\<close>

lemma stop_unlinked_record_faults:
  assumes "head s = Some h" and "h \<noteq> t" and "next (mem s t) = None" and "prev (mem s t) = None"
  shows "sw_timer_stop (Some t) s = Some (Inl NullDeref)"
  using assms by (simp add: sw_timer_stop_def)

text \<open>
  Claim C9, for a registry with the arm operation registered: \<open>sw_timer_stop\<close> on the
  sole pending timer (it is the head and has no successor) empties the chain, resets the
  record's time to 0 and makes exactly one hardware call, \<open>arm(0)\<close>.

  The call is made through the registered arm operation \<open>f\<close>: the outside changes by
  one application of \<open>f\<close> to 0 and by nothing else, the counter is not read, and
  nothing but the head and the record's time changes in the module.
\<close>

theorem C9_stop_sole_timer:
  assumes "head s = Some t" and "next (mem s t) = None" and "set_physical_timer s = Some f"
  shows "sw_timer_stop (Some t) s =
    Some (Inr (SW_TIMER_STATUS_OK,
      s\<lparr>head := None, mem := (mem s)(t := (mem s t)\<lparr>time := 0\<rparr>), env := f 0 (env s)\<rparr>))"
  using assms by (simp add: sw_timer_stop_def bindO_def call_set_physical_timer_def)

theorem C9_stop_sole_timer_witness:
  "is_chain (mem sole_pending) (head sole_pending) [1] \<and>
   returned (sw_timer_stop (Some 1) sole_pending)
     (\<lambda>(status, s'). status = SW_TIMER_STATUS_OK \<and> head s' = None \<and> time (mem s' 1) = 0 \<and>
        armed (env s') = [100, 0])"
  using C9_stop_sole_timer [of sole_pending 1 hw_arm]
  by (simp add: sole_pending_def registered_def initial_state_def hw_idle_def hw_arm_def
      sw_timer_register_physical_sw_timer_callbacks_def returned_def blank_timer_def)

text \<open>
  \<open>sw_timer_stop\<close> does not test the arm pointer. Where the sole pending timer is
  stopped and no arm operation is registered, the head is cleared, the time is reset and
  the call then goes through a null pointer.
\<close>

lemma stop_sole_timer_unregistered:
  assumes "head s = Some t" and "next (mem s t) = None" and "set_physical_timer s = None"
  shows "sw_timer_stop (Some t) s = Some (Inl NullCall)"
  using assms by (simp add: sw_timer_stop_def bindO_def call_set_physical_timer_def)

text \<open>
  Counterexample to claim C9 as it is worded, for every sole pending timer: a timer with
  period 100 is created and started on the initial registry, where no operation is
  registered. The start fails but leaves the timer as the head, with no successor and
  the time 100. \<open>sw_timer_stop\<close> on it does not return \<open>OK\<close> and makes no hardware call:
  it calls through the null arm pointer.
\<close>

theorem C9_stop_without_arm:
  "returned
     (exec_all [Create 100 SW_TIMER_MODE_SINGLE_SHOT (Some 10) None (Some 1), Start (Some 1)]
        (initial_state hw_idle))
     (\<lambda>s. is_chain (mem s) (head s) [1] \<and> time (mem s 1) = 100 \<and>
          set_physical_timer s = None \<and> sw_timer_stop (Some 1) s = Some (Inl NullCall))"
  by (simp add: model_defs loop_simps)

subsection \<open>Updating a timer\<close>

text \<open>
  Claim C8: \<open>sw_timer_update\<close> with a null handle returns \<open>TIMER_NOT_EXIST\<close> and changes
  nothing; with a stopped timer (time 0) it replaces period, mode, callback and argument
  in place and touches nothing else; with a pending timer it is \<open>sw_timer_stop\<close>, then
  the replacement of the fields, then \<open>sw_timer_start\<close>: the same state, the same fault
  or the same failure to return, and the status \<open>OK\<close>.
\<close>

theorem C8_update:
  "sw_timer_update None p m c a s = Some (Inr (SW_TIMER_STATUS_ERROR_TIMER_NOT_EXIST, s)) \<and>
   (time (mem s t) = 0 \<longrightarrow>
      sw_timer_update (Some t) p m c a s =
        Some (Inr (SW_TIMER_STATUS_OK,
          s\<lparr>mem := (mem s)(t := (mem s t)\<lparr>period := p, mode := m, callback := c, arg := a\<rparr>)\<rparr>))) \<and>
   (time (mem s t) \<noteq> 0 \<longrightarrow>
      sw_timer_update (Some t) p m c a s =
        bindO (stop_replace_start t p m c a s) (\<lambda>s'. Some (Inr (SW_TIMER_STATUS_OK, s'))))"
  by (simp add: sw_timer_update_def replace_fields_def stop_replace_start_def bindO_def
      split: option.split sum.split prod.split)

theorem C8_update_witness:
  "sw_timer_update None 7 SW_TIMER_MODE_REPEATING (Some 5) None sole_pending =
     Some (Inr (SW_TIMER_STATUS_ERROR_TIMER_NOT_EXIST, sole_pending)) \<and>
   time (mem sole_pending 2) = 0 \<and>
   returned (sw_timer_update (Some 2) 7 SW_TIMER_MODE_REPEATING (Some 5) None sole_pending)
     (\<lambda>(status, s'). status = SW_TIMER_STATUS_OK \<and> is_chain (mem s') (head s') [1] \<and>
        mem s' 2 = \<lparr>time = 0, period = 7, mode = SW_TIMER_MODE_REPEATING, callback = Some 5,
          arg = None, next = None, prev = None\<rparr> \<and> mem s' 1 = mem sole_pending 1 \<and>
        env s' = env sole_pending) \<and>
   time (mem sole_pending 1) \<noteq> 0 \<and>
   returned (sw_timer_update (Some 1) 7 SW_TIMER_MODE_REPEATING (Some 5) None sole_pending)
     (\<lambda>(status, s'). status = SW_TIMER_STATUS_OK \<and> is_chain (mem s') (head s') [1] \<and>
        mem s' 1 = \<lparr>time = 7, period = 7, mode = SW_TIMER_MODE_REPEATING, callback = Some 5,
          arg = None, next = None, prev = None\<rparr> \<and>
        armed (env s') = [100, 0, 7])"
  using C8_update [of 7 SW_TIMER_MODE_REPEATING "Some 5" None sole_pending 2]
    C8_update [of 7 SW_TIMER_MODE_REPEATING "Some 5" None sole_pending 1]
  by (simp add: sole_pending_def stop_replace_start_def sw_timer_stop_def sw_timer_start_def
      bindO_def returned_def call_set_physical_timer_def registered_def initial_state_def
      hw_idle_def hw_arm_def sw_timer_register_physical_sw_timer_callbacks_def blank_timer_def
      SW_TIMER_MODE_SINGLE_SHOT_def SW_TIMER_MODE_REPEATING_def)

subsection \<open>The interrupt handler\<close>

text \<open>
  Claim C10: \<open>sw_timer_interrupt_handler\<close> reads the time of the head before it tests
  whether there is a head; on the empty chain its first access is a null dereference,
  whatever the callbacks and the rest of the state are.
\<close>

theorem C10_handler_needs_head:
  "head s = None \<Longrightarrow> sw_timer_interrupt_handler call s = Some (Inl NullDeref)"
  by (simp add: sw_timer_interrupt_handler_def)

theorem C10_handler_needs_head_witness:
  "head registered = None \<and> sw_timer_interrupt_handler log_call registered = Some (Inl NullDeref)"
  using C10_handler_needs_head [of registered log_call]
  by (simp add: registered_def initial_state_def sw_timer_register_physical_sw_timer_callbacks_def)

text \<open>
  Claim C4 says that the handler terminates on every registry with a pending timer.
  A Repeating timer with period 0 at the head of the chain, with time 0, stays where it
  is: adding the period leaves the sum 0, so nothing is shifted, the time of the head
  still equals the deadline, and one pass of the loop returns to the state it started
  from.
\<close>

lemma spinning_step: "expire_head call 0 1 spinning = Some (Inr spinning)"
  by (simp add: model_defs spinning_def)

lemma spinning_loop_aux:
  assumes "expiry_loop call t s = Some y"
  shows "\<not> (t = 0 \<and> s = spinning)"
proof (rule expiry_loop.raw_induct [where P = "\<lambda>call t s y. \<not> (t = 0 \<and> s = spinning)", OF _ assms])
  fix loop :: "(nat \<Rightarrow> nat option \<Rightarrow> hw sw_state \<Rightarrow> hw sw_state outcome) \<Rightarrow> u32 \<Rightarrow> hw sw_state
    \<Rightarrow> (fault + hw sw_state) option"
  fix call' t' s' y'
  assume IH: "\<And>c t s y. loop c t s = Some y \<Longrightarrow> \<not> (t = 0 \<and> s = spinning)"
  assume step: "(case head s' of
        None \<Rightarrow> Some (Inr s')
      | Some h \<Rightarrow>
          if time (mem s' h) = t' then
            (case expire_head call' t' h s' of
               None \<Rightarrow> None
             | Some (Inl e) \<Rightarrow> Some (Inl e)
             | Some (Inr s'') \<Rightarrow> loop call' t' s'')
          else Some (Inr s')) = Some y'"
  show "\<not> (t' = 0 \<and> s' = spinning)"
  proof
    assume a: "t' = 0 \<and> s' = spinning"
    have h: "head spinning = Some 1" "time (mem spinning 1) = 0"
      by (simp_all add: spinning_def)
    from step a have "loop call' 0 spinning = Some y'"
      by (simp add: h spinning_step del: One_nat_def)
    from IH [OF this] show False by simp
  qed
qed

lemma spinning_loop: "expiry_loop call 0 spinning = None"
  using spinning_loop_aux [of call 0 spinning] by (cases "expiry_loop call 0 spinning") auto

text \<open>
  Counterexample to claim C4: a Repeating timer with period 0 is created and started on
  the empty registry. Its chain is not empty and the handler never returns.
\<close>

theorem C4_handler_spins:
  "returned
     (exec_all [Create 0 SW_TIMER_MODE_REPEATING None None (Some 1), Start (Some 1)] registered)
     (\<lambda>s. is_chain (mem s) (head s) [1] \<and> sw_timer_interrupt_handler log_call s = None)"
proof -
  have h: "head spinning = Some 1" "time (mem spinning 1) = 0" "next (mem spinning 1) = None"
    by (simp_all add: spinning_def)
  show ?thesis
    unfolding spinning_reached
    by (simp add: returned_def sw_timer_interrupt_handler_def spinning_loop h del: One_nat_def)
qed

text \<open>
  With any period the same happens to a Repeating timer that is alone in the chain when
  the counter reads 0 at its deadline: the sum of time and period is not 0, the chain is
  shifted by the whole time of the head, the period is added, and the head has the time
  it had. Each pass runs the callback once more.
\<close>

lemma due_repeating_step:
  "expire_head log_call 30 1 (due_repeating l) = Some (Inr (due_repeating (l @ [(10, None)])))"
  by (simp add: model_defs loop_simps due_repeating_def)

lemma due_repeating_loop_aux:
  assumes "expiry_loop call t s = Some y"
  shows "\<not> (call = log_call \<and> t = 30 \<and> (\<exists>l. s = due_repeating l))"
proof (rule expiry_loop.raw_induct
    [where P = "\<lambda>call t s y. \<not> (call = log_call \<and> t = 30 \<and> (\<exists>l. s = due_repeating l))",
      OF _ assms])
  fix loop :: "(nat \<Rightarrow> nat option \<Rightarrow> hw sw_state \<Rightarrow> hw sw_state outcome) \<Rightarrow> u32 \<Rightarrow> hw sw_state
    \<Rightarrow> (fault + hw sw_state) option"
  fix call' t' s' y'
  assume IH: "\<And>c t s y. loop c t s = Some y \<Longrightarrow>
    \<not> (c = log_call \<and> t = 30 \<and> (\<exists>l. s = due_repeating l))"
  assume step: "(case head s' of
        None \<Rightarrow> Some (Inr s')
      | Some h \<Rightarrow>
          if time (mem s' h) = t' then
            (case expire_head call' t' h s' of
               None \<Rightarrow> None
             | Some (Inl e) \<Rightarrow> Some (Inl e)
             | Some (Inr s'') \<Rightarrow> loop call' t' s'')
          else Some (Inr s')) = Some y'"
  show "\<not> (call' = log_call \<and> t' = 30 \<and> (\<exists>l. s' = due_repeating l))"
  proof
    assume "call' = log_call \<and> t' = 30 \<and> (\<exists>l. s' = due_repeating l)"
    then obtain l where a: "call' = log_call" "t' = 30" "s' = due_repeating l"
      by blast
    have h: "head (due_repeating l) = Some 1" "time (mem (due_repeating l) 1) = 30"
      by (simp_all add: due_repeating_def)
    from step a have "loop log_call 30 (due_repeating (l @ [(10, None)])) = Some y'"
      by (simp add: h due_repeating_step del: One_nat_def)
    from IH [OF this] show False by blast
  qed
qed

lemma repeating_timer_spins_at_deadline:
  "returned
     (exec_all [Create 30 SW_TIMER_MODE_REPEATING (Some 10) None (Some 1), Start (Some 1), Ticks 30]
        registered)
     (\<lambda>s. counter (env s) = 0 \<and> sw_timer_interrupt_handler log_call s = None)"
proof -
  have h: "head (due_repeating []) = Some 1" "time (mem (due_repeating []) 1) = 30"
    "counter (env (due_repeating [])) = 0"
    by (simp_all add: due_repeating_def)
  have "expiry_loop log_call 30 (due_repeating []) = None"
    using due_repeating_loop_aux [of log_call 30 "due_repeating []"]
    by (cases "expiry_loop log_call 30 (due_repeating [])") auto
  then show ?thesis
    unfolding due_repeating_reached
    by (simp add: returned_def sw_timer_interrupt_handler_def h del: One_nat_def)
qed

subsection \<open>Expiry of SingleShot timers\<close>

text \<open>A chain is determined by its first pointer, and no address occurs twice in it.\<close>

lemma is_chain_next_cong:
  "(\<And>a. a \<in> set xs \<Longrightarrow> next (m' a) = next (m a)) \<Longrightarrow> is_chain m' p xs = is_chain m p xs"
  by (induction xs arbitrary: p) auto

lemma is_chain_unique: "is_chain m p xs \<Longrightarrow> is_chain m p zs \<Longrightarrow> xs = zs"
proof (induction xs arbitrary: p zs)
  case Nil
  then show ?case by (cases zs) auto
next
  case (Cons a xs)
  then show ?case by (cases zs) auto
qed

lemma is_chain_suffix: "is_chain m p (us @ a # vs) \<Longrightarrow> is_chain m (next (m a)) vs"
  by (induction us arbitrary: p) auto

lemma is_chain_head_fresh:
  assumes "is_chain m (next (m a)) xs"
  shows "a \<notin> set xs"
proof
  assume "a \<in> set xs"
  then obtain us vs where xs: "xs = us @ a # vs"
    by (auto simp add: in_set_conv_decomp)
  with assms have "is_chain m (next (m a)) vs"
    using is_chain_suffix by blast
  with assms have "xs = vs" by (rule is_chain_unique)
  with xs show False by simp
qed

lemma is_chain_distinct: "is_chain m p xs \<Longrightarrow> distinct xs"
  by (induction xs arbitrary: p) (auto dest: is_chain_head_fresh)

lemma fire_cong:
  "(\<And>a. a \<in> set xs \<Longrightarrow> callback (m' a) = callback (m a) \<and> arg (m' a) = arg (m a)) \<Longrightarrow>
     fire run rearm m' xs e = fire run rearm m xs e"
  by (induction run rearm m xs e rule: fire.induct)
     (auto simp add: fire_callback_def split: option.split)

lemma expire_head_single_shot_last:
  assumes "mode (mem s h) = SW_TIMER_MODE_SINGLE_SHOT"
    and "next (mem s h) = None"
    and "set_physical_timer s = Some f"
    and "\<And>c a s. call c a s = Some (Inr (s\<lparr>env := run c a (env s)\<rparr>))"
  shows "expire_head call t h s =
    Some (Inr (s\<lparr>head := None, mem := (mem s)(h := (mem s h)\<lparr>time := 0\<rparr>),
                 env := fire_callback run (mem s h) (f 0 (env s))\<rparr>))"
  using assms(1-3)
  by (simp add: expire_head_def bindO_def call_set_physical_timer_def fire_callback_def assms(4)
      split: option.split)

lemma expire_head_single_shot_next:
  assumes "mode (mem s h) = SW_TIMER_MODE_SINGLE_SHOT"
    and "next (mem s h) = Some n" and "n \<noteq> h"
    and "set_physical_timer s = Some f"
    and "\<And>c a s. call c a s = Some (Inr (s\<lparr>env := run c a (env s)\<rparr>))"
  shows "expire_head call t h s =
    Some (Inr (s\<lparr>head := Some n,
                 mem := (mem s)(h := (mem s h)\<lparr>time := 0, next := None\<rparr>,
                                n := (mem s n)\<lparr>prev := None\<rparr>),
                 env := fire_callback run (mem s h)
                          (if time (mem s n) \<noteq> t then f (time (mem s n) - t) (env s) else env s)\<rparr>))"
  using assms(1-4)
  by (simp add: expire_head_def bindO_def call_set_physical_timer_def fire_callback_def assms(5)
      split: option.split)

lemma expiry_loop_pops:
  assumes call: "\<And>c a s. call c a s = Some (Inr (s\<lparr>env := run c a (env s)\<rparr>))"
  shows "is_chain (mem s) (head s) (xs @ ys) \<Longrightarrow>
    (\<forall>a\<in>set xs. time (mem s a) = t \<and> mode (mem s a) = SW_TIMER_MODE_SINGLE_SHOT) \<Longrightarrow>
    (case ys of [] \<Rightarrow> True | y # _ \<Rightarrow> time (mem s y) \<noteq> t) \<Longrightarrow>
    set_physical_timer s = Some f \<Longrightarrow>
    \<exists>s'. expiry_loop call t s = Some (Inr s') \<and>
         is_chain (mem s') (head s') ys \<and>
         (\<forall>a\<in>set xs. time (mem s' a) = 0) \<and>
         (\<forall>a. a \<notin> set xs \<longrightarrow> time (mem s' a) = time (mem s a)) \<and>
         env s' = fire run (f (residual (mem s) ys t)) (mem s) xs (env s)"
proof (induction xs arbitrary: s)
  case Nil
  then show ?case
    by (cases ys) (auto simp add: expiry_loop.simps)
next
  case (Cons x xs)
  from Cons.prems(1) have hd: "head s = Some x" and tl: "is_chain (mem s) (next (mem s x)) (xs @ ys)"
    by simp_all
  from Cons.prems(2) have x: "time (mem s x) = t" "mode (mem s x) = SW_TIMER_MODE_SINGLE_SHOT"
    by simp_all
  from tl have fresh: "x \<notin> set (xs @ ys)" by (rule is_chain_head_fresh)
  show ?case
  proof (cases "xs @ ys")
    case Nil
    with tl have nx: "next (mem s x) = None" by simp
    from Nil have e: "xs = []" "ys = []" by simp_all
    have step: "expire_head call t x s =
      Some (Inr (s\<lparr>head := None, mem := (mem s)(x := (mem s x)\<lparr>time := 0\<rparr>),
                   env := fire_callback run (mem s x) (f 0 (env s))\<rparr>))"
      by (rule expire_head_single_shot_last [OF x(2) nx Cons.prems(4) call])
    show ?thesis
      using hd x
      by (subst expiry_loop.simps) (simp add: step e expiry_loop.simps residual_def)
  next
    case (Cons n rest)
    with tl have nx: "next (mem s x) = Some n" and rest: "is_chain (mem s) (next (mem s n)) rest"
      by simp_all
    from fresh Cons have ne: "n \<noteq> x" by auto
    define s1 where "s1 = s\<lparr>head := Some n,
                 mem := (mem s)(x := (mem s x)\<lparr>time := 0, next := None\<rparr>,
                                n := (mem s n)\<lparr>prev := None\<rparr>),
                 env := fire_callback run (mem s x)
                          (if time (mem s n) \<noteq> t then f (time (mem s n) - t) (env s) else env s)\<rparr>"
    have step: "expire_head call t x s = Some (Inr s1)"
      unfolding s1_def by (rule expire_head_single_shot_next [OF x(2) nx ne Cons.prems(4) call])
    have loop: "expiry_loop call t s = expiry_loop call t s1"
      using hd x by (subst expiry_loop.simps) (simp add: step)
    have nxt: "\<And>a. a \<in> set (xs @ ys) \<Longrightarrow> next (mem s1 a) = next (mem s a)"
      using fresh by (auto simp add: s1_def)
    have tm: "\<And>a. a \<noteq> x \<Longrightarrow> time (mem s1 a) = time (mem s a)"
      by (auto simp add: s1_def)
    have md: "\<And>a. a \<noteq> x \<Longrightarrow> mode (mem s1 a) = mode (mem s a)"
      by (auto simp add: s1_def)
    have cb: "\<And>a. a \<noteq> x \<Longrightarrow> callback (mem s1 a) = callback (mem s a) \<and> arg (mem s1 a) = arg (mem s a)"
      by (auto simp add: s1_def)
    have c1: "is_chain (mem s1) (head s1) (xs @ ys)"
    proof -
      have "is_chain (mem s1) (Some n) (xs @ ys) = is_chain (mem s) (Some n) (xs @ ys)"
        by (rule is_chain_next_cong) (rule nxt)
      moreover have "head s1 = Some n" by (simp add: s1_def)
      ultimately show ?thesis using tl nx by simp
    qed
    have c2: "\<forall>a\<in>set xs. time (mem s1 a) = t \<and> mode (mem s1 a) = SW_TIMER_MODE_SINGLE_SHOT"
    proof
      fix a
      assume a: "a \<in> set xs"
      with fresh have "a \<noteq> x" by auto
      then have "time (mem s1 a) = time (mem s a)" "mode (mem s1 a) = mode (mem s a)"
        by (simp_all add: tm md)
      with a Cons.prems(2)
      show "time (mem s1 a) = t \<and> mode (mem s1 a) = SW_TIMER_MODE_SINGLE_SHOT"
        by simp
    qed
    have c3: "(case ys of [] \<Rightarrow> True | y # _ \<Rightarrow> time (mem s1 y) \<noteq> t)"
      using Cons.prems(3) fresh tm by (cases ys) auto
    have c4: "set_physical_timer s1 = Some f"
      using Cons.prems(4) by (simp add: s1_def)
    from Cons.IH [OF c1 c2 c3 c4] obtain s' where
      r: "expiry_loop call t s1 = Some (Inr s')"
      and r1: "is_chain (mem s') (head s') ys"
      and r2: "\<forall>a\<in>set xs. time (mem s' a) = 0"
      and r3: "\<forall>a. a \<notin> set xs \<longrightarrow> time (mem s' a) = time (mem s1 a)"
      and r4: "env s' = fire run (f (residual (mem s1) ys t)) (mem s1) xs (env s1)"
      by blast
    have res: "residual (mem s1) ys t = residual (mem s) ys t"
      using fresh tm by (cases ys) (auto simp add: residual_def)
    have fr: "fire run (f (residual (mem s) ys t)) (mem s1) xs (env s1)
        = fire run (f (residual (mem s) ys t)) (mem s) xs (env s1)"
    proof (rule fire_cong)
      fix a
      assume "a \<in> set xs"
      with fresh have "a \<noteq> x" by auto
      then show "callback (mem s1 a) = callback (mem s a) \<and> arg (mem s1 a) = arg (mem s a)"
        by (rule cb)
    qed
    have x0: "time (mem s' x) = 0"
    proof -
      from fresh have "x \<notin> set xs" by simp
      with r3 have "time (mem s' x) = time (mem s1 x)" by simp
      also have "\<dots> = 0" using ne by (simp add: s1_def)
      finally show ?thesis .
    qed
    have frame: "\<forall>a. a \<notin> set (x # xs) \<longrightarrow> time (mem s' a) = time (mem s a)"
      using r3 tm by auto
    have env: "env s' = fire run (f (residual (mem s) ys t)) (mem s) (x # xs) (env s)"
    proof (cases xs)
      case Nil
      with Cons have ys: "ys = n # rest" by simp
      from Cons.prems(3) ys have "time (mem s n) \<noteq> t" by simp
      then show ?thesis
        using r4 Nil ys by (simp add: s1_def residual_def)
    next
      case (Cons x' xs')
      with \<open>xs @ ys = n # rest\<close> have "x' = n" by simp
      with Cons Cons.prems(2) have "time (mem s n) = t" by simp
      then show ?thesis
        using r4 res fr Cons by (simp add: s1_def)
    qed
    show ?thesis
      using loop r r1 r2 x0 frame env by auto
  qed
qed

text \<open>
  Claim C4, for deadlines at which only SingleShot timers are due. The chain is
  \<open>x # xs @ ys\<close>: the timers \<open>x # xs\<close> are SingleShot and share the time of the head,
  the first timer of \<open>ys\<close>, if there is one, has another time. The arm operation \<open>f\<close> is
  registered and a callback changes nothing but the outside, by \<open>run\<close>. Then the
  handler returns; the chain that remains is \<open>ys\<close>, so the loop has ended with no head
  or with a head whose time is not the deadline; the timers \<open>x # xs\<close> have the time 0
  and no other time has changed; and the outside has seen the callbacks of \<open>x # xs\<close>,
  once each and in the order of the chain, and one arming of the timer.
\<close>

theorem C4_single_shot_expiry:
  assumes "is_chain (mem s) (head s) (x # xs @ ys)"
    and "\<forall>a\<in>set (x # xs).
           time (mem s a) = time (mem s x) \<and> mode (mem s a) = SW_TIMER_MODE_SINGLE_SHOT"
    and "case ys of [] \<Rightarrow> True | y # _ \<Rightarrow> time (mem s y) \<noteq> time (mem s x)"
    and "set_physical_timer s = Some f"
    and "\<And>c a s. call c a s = Some (Inr (s\<lparr>env := run c a (env s)\<rparr>))"
  shows "\<exists>s'. sw_timer_interrupt_handler call s = Some (Inr s') \<and>
           is_chain (mem s') (head s') ys \<and>
           (\<forall>a\<in>set (x # xs). time (mem s' a) = 0) \<and>
           (\<forall>a. a \<notin> set (x # xs) \<longrightarrow> time (mem s' a) = time (mem s a)) \<and>
           env s' = fire run (f (residual (mem s) ys (time (mem s x)))) (mem s) (x # xs) (env s)"
proof -
  from assms(1) have hd: "head s = Some x" by simp
  from assms(1) have ch: "is_chain (mem s) (head s) ((x # xs) @ ys)" by simp
  have "sw_timer_interrupt_handler call s = expiry_loop call (time (mem s x)) s"
    by (simp add: sw_timer_interrupt_handler_def hd)
  with expiry_loop_pops [of call run s "x # xs" ys "time (mem s x)" f,
      OF assms(5) ch assms(2) assms(3) assms(4)]
  show ?thesis by simp
qed

theorem C4_single_shot_expiry_witness:
  "\<exists>s'. sw_timer_interrupt_handler log_call tied = Some (Inr s') \<and>
      is_chain (mem s') (head s') [1] \<and> chain_times (mem s') [2, 3, 1] = [0, 0, 50] \<and>
      fired (env s') = [(20, None), (30, None)] \<and> armed (env s') = [50, 30, 20]"
proof -
  have "\<exists>s'. sw_timer_interrupt_handler log_call tied = Some (Inr s') \<and>
      is_chain (mem s') (head s') [1] \<and>
      (\<forall>a\<in>set [2, 3]. time (mem s' a) = 0) \<and>
      (\<forall>a. a \<notin> set [2, 3] \<longrightarrow> time (mem s' a) = time (mem tied a)) \<and>
      env s' = fire (\<lambda>c a e. e\<lparr>fired := fired e @ [(c, a)]\<rparr>)
                 (hw_arm (residual (mem tied) [1] (time (mem tied 2)))) (mem tied) [2, 3] (env tied)"
    by (rule C4_single_shot_expiry [of tied 2 "[3]" "[1]" hw_arm log_call])
       (simp_all add: tied_def registered_def initial_state_def log_call_def
          sw_timer_register_physical_sw_timer_callbacks_def SW_TIMER_MODE_SINGLE_SHOT_def)
  then obtain s' where r: "sw_timer_interrupt_handler log_call tied = Some (Inr s')"
    and c: "is_chain (mem s') (head s') [1]"
    and z: "time (mem s' 2) = 0" "time (mem s' 3) = 0"
    and k: "time (mem s' 1) = time (mem tied 1)"
    and e: "env s' = fire (\<lambda>c a e. e\<lparr>fired := fired e @ [(c, a)]\<rparr>)
                 (hw_arm (residual (mem tied) [1] (time (mem tied 2)))) (mem tied) [2, 3] (env tied)"
    by auto
  from k have "time (mem s' 1) = 50" by (simp add: tied_def)
  moreover from e have "fired (env s') = [(20, None), (30, None)]" "armed (env s') = [50, 30, 20]"
    by (simp_all add: tied_def residual_def fire_callback_def hw_arm_def)
  ultimately show ?thesis using r c z by (simp add: chain_times_def)
qed

end
